theory Spec2Isabelle
  imports Main "HOL-Library.Word"
begin

unbundle bit_operations_syntax

section \<open>fix\_ea: extended-attribute check and repair (src/fix\_ea/fix\_ea.c)\<close>

text \<open>
  A shallow embedding of the attribute engine of \<^verbatim>\<open>fix_ea.c\<close>, from
  \<^verbatim>\<open>get_extended_attributes\<close> to \<^verbatim>\<open>do_ea_stuff_single\<close>. A C \<^verbatim>\<open>char\<close> is a \<^typ>\<open>char\<close>, a buffer
  is a \<^typ>\<open>string\<close> whose list length is the size of the allocation, the flag word
  \<^verbatim>\<open>u_int64_t flags\<close> is a \<^typ>\<open>64 word\<close>, and the \<^verbatim>\<open>int\<close> return codes are
  \<^typ>\<open>int\<close> (they stay within a few small constants). Byte counts are \<^typ>\<open>nat\<close>:
  the code keeps them in \<^verbatim>\<open>size_t\<close> and \<^verbatim>\<open>int\<close>, and an attribute value is far
  shorter than \<open>2^31 - 1\<close> bytes, so no count wraps.
\<close>

subsection \<open>Constants\<close>

definition EX_OK :: int where "EX_OK = 0"
definition EX_EA_CORRUPTED :: int where "EX_EA_CORRUPTED = 1"
definition EX_USAGE :: int where "EX_USAGE = 64"
definition EX_DATAERR :: int where "EX_DATAERR = 65"
definition EX_OSERR :: int where "EX_OSERR = 71"

definition F_NONE :: "64 word" where "F_NONE = 0x0000"
definition F_APPEND_NULL_ALL :: "64 word" where "F_APPEND_NULL_ALL = 0x0001"
definition F_CHECK_AFP_EA :: "64 word" where "F_CHECK_AFP_EA = 0x0002"
definition F_DRY_RUN :: "64 word" where "F_DRY_RUN = 0x0004"
definition F_FIX_AFP_EA :: "64 word" where "F_FIX_AFP_EA = 0x0008"
definition F_APPEND_NULL :: "64 word" where "F_APPEND_NULL = 0x0010"
definition F_VERBOSE :: "64 word" where "F_VERBOSE = 0x0020"
definition F_DEBUG :: "64 word" where "F_DEBUG = 0x0040"
definition F_RECURSIVE :: "64 word" where "F_RECURSIVE = 0x0080"

text \<open>The C test \<^verbatim>\<open>if (flags & F)\<close>.\<close>

definition flag_set :: "64 word \<Rightarrow> 64 word \<Rightarrow> bool" where
  "flag_set flags f = (flags AND f \<noteq> 0)"

subsection \<open>Data\<close>

text \<open>
  \<^verbatim>\<open>struct xattr\<close>. \<open>x_name\<close> is the NUL-terminated string that \<^verbatim>\<open>name\<close> points to,
  \<open>x_value\<close> the buffer that \<^verbatim>\<open>value\<close> points to (all of the allocation), \<open>x_length\<close>
  the field \<^verbatim>\<open>length\<close>. The three \<^verbatim>\<open>TAILQ_ENTRY\<close> links are the positions of the
  record in the three queues below.
\<close>

record xattr =
  x_name :: string
  x_value :: string
  x_length :: nat

text \<open>What the program prints: the lines of \<^verbatim>\<open>printf\<close> and \<^verbatim>\<open>warn\<close>.\<close>

datatype msg =
    Hexdump string string string nat
  | Is_corrupted string string
  | Is_fixed string string
  | Null_appended string string
  | Warn string

text \<open>
  The state one object-processing cycle works on. \<open>xlist\<close> is the queue that owns the
  records; \<open>afp_list\<close> and \<open>append_list\<close> are the two other queues threaded through
  the same records, held as the positions of their members in \<open>xlist\<close>, so that a write
  through one queue is seen through the others, as with the C pointers. \<open>store\<close> is the
  attribute storage of the open object, \<open>set_calls\<close> the calls of \<^verbatim>\<open>extattr_set_fd\<close>
  issued so far (name and bytes passed), \<open>out\<close> the output, \<open>closed\<close> the descriptors
  passed to \<^verbatim>\<open>close\<close>, \<open>nalloc\<close> the number of \<^verbatim>\<open>malloc\<close> calls so far, and \<open>oob\<close>
  the writes that fell outside their buffer, each as (size of the allocation, index
  written).
\<close>

record world =
  xlist :: "xattr list"
  afp_list :: "nat list"
  append_list :: "nat list"
  store :: "string \<rightharpoonup> string"
  set_calls :: "(string \<times> string) list"
  out :: "msg list"
  closed :: "int list"
  nalloc :: nat
  oob :: "(nat \<times> nat) list"

text \<open>
  The host system, which the program calls and does not implement: what \<^verbatim>\<open>open\<close>,
  \<^verbatim>\<open>malloc\<close> and the three \<^verbatim>\<open>extattr_*_fd\<close> calls answer. One object is open at a
  time, so the descriptor is not an argument of the attribute calls.
  \<^item> \<open>sys_open path\<close>: the result of \<^verbatim>\<open>open(path, O_RDONLY)\<close>;
  \<^item> \<open>malloc_null n\<close>: the \<open>n\<close>-th call of \<^verbatim>\<open>malloc\<close> returns \<^verbatim>\<open>NULL\<close>;
  \<^item> \<open>junk i\<close>: the byte found at offset \<open>i\<close> of memory fresh from \<^verbatim>\<open>malloc\<close>;
  \<^item> \<open>usable n\<close>: the number of bytes the allocator sets aside for a request of \<open>n\<close>
    bytes, at least \<open>n\<close> (what \<^verbatim>\<open>malloc_usable_size\<close> reports);
  \<^item> \<open>past_end k\<close>: the bytes, up to the first NUL, that lie behind the requested bytes
    of the \<open>k\<close>-th allocation once the allocator has handed out memory again, when that
    allocation fills all of its usable bytes;
  \<^item> \<open>list_size\<close>: the result of the size query \<^verbatim>\<open>extattr_list_fd(fd, ns, NULL, 0)\<close>;
  \<^item> \<open>list_data\<close>: the bytes \<^verbatim>\<open>extattr_list_fd\<close> has to deliver (each name preceded by
    its length in one byte), \<open>None\<close> when the call fails;
  \<^item> \<open>get_size name\<close>: the result of the size query \<^verbatim>\<open>extattr_get_fd(fd, ns, name, NULL, 0)\<close>;
  \<^item> \<open>get_data name\<close>: the bytes \<^verbatim>\<open>extattr_get_fd\<close> has to deliver, \<open>None\<close> when it fails;
  \<^item> \<open>set_fails name data\<close>: \<^verbatim>\<open>extattr_set_fd\<close> of these bytes under this name fails.
\<close>

record env =
  sys_open :: "string \<Rightarrow> int"
  malloc_null :: "nat \<Rightarrow> bool"
  junk :: "nat \<Rightarrow> char"
  usable :: "nat \<Rightarrow> nat"
  past_end :: "nat \<Rightarrow> string"
  list_size :: int
  list_data :: "string option"
  get_size :: "string \<Rightarrow> int"
  get_data :: "string \<Rightarrow> string option"
  set_fails :: "string \<Rightarrow> string \<Rightarrow> bool"

subsection \<open>Memory and output primitives\<close>

definition print :: "msg \<Rightarrow> world \<Rightarrow> world" where
  "print m w = w\<lparr>out := out w @ [m]\<rparr>"

definition warn :: "string \<Rightarrow> world \<Rightarrow> world" where
  "warn s w = print (Warn s) w"

text \<open>
  \<^verbatim>\<open>malloc(n)\<close>: \<^verbatim>\<open>NULL\<close> (\<open>None\<close>) or a buffer of \<open>n\<close> bytes of indeterminate
  content.
\<close>

definition malloc :: "env \<Rightarrow> nat \<Rightarrow> world \<Rightarrow> string option \<times> world" where
  "malloc e n w =
     (if malloc_null e (nalloc w) then None else Some (map (junk e) [0..<n]),
      w\<lparr>nalloc := nalloc w + 1\<rparr>)"

text \<open>
  \<open>peek\<close> reads \<^verbatim>\<open>buf[i]\<close>; there is no byte to read outside the buffer. \<open>poke\<close> is
  the assignment \<^verbatim>\<open>buf[i] = c\<close>: inside the allocation it updates the buffer; outside,
  the buffer keeps its content and the overrun is recorded in \<open>oob\<close>.
\<close>

definition peek :: "string \<Rightarrow> nat \<Rightarrow> char option" where
  "peek buf i = (if i < length buf then Some (buf ! i) else None)"

definition poke :: "string \<Rightarrow> nat \<Rightarrow> char \<Rightarrow> world \<Rightarrow> string \<times> world" where
  "poke buf i c w =
     (if i < length buf then (buf[i := c], w)
      else (buf, w\<lparr>oob := oob w @ [(length buf, i)]\<rparr>))"

text \<open>\<^verbatim>\<open>memcpy(dst, src, n)\<close>: the first \<open>n\<close> bytes of \<open>dst\<close> become those of \<open>src\<close>.\<close>

definition memcpy :: "string \<Rightarrow> string \<Rightarrow> nat \<Rightarrow> string" where
  "memcpy dst src n =
     (let k = min n (min (length src) (length dst)) in take k src @ drop k dst)"

text \<open>
  \<^verbatim>\<open>extattr_set_fd(fd, ns, name, value, length)\<close>, as the manual page has it: the
  first \<open>length\<close> bytes of the buffer are stored under the name and their number is
  returned, or nothing is stored and \<open>-1\<close> is returned.
\<close>

definition extattr_set_fd ::
  "env \<Rightarrow> string \<Rightarrow> string \<Rightarrow> nat \<Rightarrow> world \<Rightarrow> int \<times> world" where
  "extattr_set_fd e nm buf len w =
     (let data = take len buf;
          w' = w\<lparr>set_calls := set_calls w @ [(nm, data)]\<rparr>
      in if set_fails e nm data then (-1, w')
         else (int (length data), w'\<lparr>store := (store w')(nm \<mapsto> data)\<rparr>))"

subsection \<open>get\_afp\_list\<close>

text \<open>The macro \<^verbatim>\<open>AFP_EA_CORRUPTED(v)\<close>.\<close>

definition AFP_EA_CORRUPTED :: "string \<Rightarrow> bool" where
  "AFP_EA_CORRUPTED v =
     (peek v 0 = Some (CHR 0x00) \<and> peek v 1 = Some (CHR ''F'') \<and> peek v 2 = Some (CHR ''P''))"

text \<open>
  \<^verbatim>\<open>TAILQ_FOREACH(xptr, xlist, link)\<close> visits the positions of \<open>xlist\<close> in order;
  \<^verbatim>\<open>TAILQ_INSERT_TAIL(afp_list, xptr, afp_link)\<close> appends the position. The two
  queue arguments are addresses of locals of \<^verbatim>\<open>do_ea_stuff_single\<close>, never \<^verbatim>\<open>NULL\<close>,
  so the \<open>-1\<close> return is not a branch of the model.
\<close>

fun get_afp_loop :: "xattr list \<Rightarrow> nat list \<Rightarrow> nat list \<Rightarrow> nat list" where
  "get_afp_loop xs [] afp = afp"
| "get_afp_loop xs (k # ks) afp =
     get_afp_loop xs ks
       (if 3 \<le> x_length (xs ! k) \<and> AFP_EA_CORRUPTED (x_value (xs ! k))
        then afp @ [k] else afp)"

definition get_afp_list :: "world \<Rightarrow> int \<times> world" where
  "get_afp_list w =
     (0, w\<lparr>afp_list := get_afp_loop (xlist w) [0..<length (xlist w)] (afp_list w)\<rparr>)"

subsection \<open>hexdump\_ea\<close>

text \<open>
  The dump prints the bytes \<^verbatim>\<open>buf[0..length)\<close> when there are fewer than eight, else
  the first four and the last four. The pointer arguments are never \<^verbatim>\<open>NULL\<close> here.
\<close>

definition hexdump_lines :: "string \<Rightarrow> string \<Rightarrow> string \<Rightarrow> nat \<Rightarrow> msg list" where
  "hexdump_lines path nm buf len =
     (if len = 0 then []
      else [Hexdump path nm
              (if len < 8 then take len buf
               else take 4 buf @ drop (len - 4) (take len buf)) len])"

definition hexdump_ea :: "string \<Rightarrow> string \<Rightarrow> string \<Rightarrow> nat \<Rightarrow> world \<Rightarrow> world" where
  "hexdump_ea path nm buf len w = w\<lparr>out := out w @ hexdump_lines path nm buf len\<rparr>"

subsection \<open>fix\_afp\_list\<close>

text \<open>
  The non-dry-run branch of the fix: \<^verbatim>\<open>*((char *)xptr->value) = 'A'\<close>, then the
  write-back. It returns the new \<^verbatim>\<open>ret\<close>, the new \<^verbatim>\<open>setret\<close> and the state.
\<close>

definition fix_afp_write :: "env \<Rightarrow> nat \<Rightarrow> int \<Rightarrow> world \<Rightarrow> int \<times> int \<times> world" where
  "fix_afp_write e k ret w =
     (let xptr = xlist w ! k in
      case poke (x_value xptr) 0 (CHR ''A'') w of (v, w1) \<Rightarrow>
        let xptr' = xptr\<lparr>x_value := v\<rparr>;
            w2 = w1\<lparr>xlist := (xlist w1)[k := xptr']\<rparr>
        in case extattr_set_fd e (x_name xptr') (x_value xptr') (x_length xptr') w2 of
             (setret, w3) \<Rightarrow>
               if setret < 0 then (ret OR EX_EA_CORRUPTED, setret, warn ''extattr_set_fd'' w3)
               else (ret, setret, w3))"

text \<open>
  One iteration of \<^verbatim>\<open>TAILQ_FOREACH(xptr, afp_list, afp_link)\<close> on the record at
  position \<open>k\<close>. \<^verbatim>\<open>ret\<close> and \<^verbatim>\<open>setret\<close> are declared outside the loop and carried
  from one iteration to the next.
\<close>

definition fix_afp_body ::
  "env \<Rightarrow> string \<Rightarrow> 64 word \<Rightarrow> nat \<Rightarrow> int \<times> int \<times> world \<Rightarrow> int \<times> int \<times> world" where
  "fix_afp_body e path flags k acc =
     (case acc of (ret, setret, w) \<Rightarrow>
        let xptr = xlist w ! k;
            w1 = (if flag_set flags F_DEBUG
                  then hexdump_ea path (x_name xptr) (x_value xptr) (x_length xptr) w else w);
            ret1 = (if flag_set flags F_CHECK_AFP_EA then ret OR EX_EA_CORRUPTED else ret);
            w2 = (if flag_set flags F_CHECK_AFP_EA \<and> flag_set flags F_VERBOSE
                  then print (Is_corrupted path (x_name xptr)) w1 else w1)
        in if flag_set flags F_FIX_AFP_EA then
             (case (if \<not> flag_set flags F_DRY_RUN then fix_afp_write e k ret1 w2
                    else (ret1, setret, w2)) of
                (ret2, setret2, w3) \<Rightarrow>
                  if 0 < setret2 \<or> flag_set flags F_DRY_RUN then
                    (ret2 OR EX_OK, setret2,
                     if flag_set flags F_VERBOSE
                     then print (Is_fixed path (x_name xptr)) w3 else w3)
                  else (ret2, setret2, w3))
           else (ret1, setret, w2))"

fun fix_afp_loop ::
  "env \<Rightarrow> string \<Rightarrow> 64 word \<Rightarrow> nat list \<Rightarrow> int \<times> int \<times> world \<Rightarrow> int \<times> int \<times> world" where
  "fix_afp_loop e path flags [] acc = acc"
| "fix_afp_loop e path flags (k # ks) acc =
     fix_afp_loop e path flags ks (fix_afp_body e path flags k acc)"

definition fix_afp_list :: "env \<Rightarrow> string \<Rightarrow> 64 word \<Rightarrow> world \<Rightarrow> int \<times> world" where
  "fix_afp_list e path flags w =
     (case fix_afp_loop e path flags (afp_list w) (0, 0, w) of (ret, setret, w') \<Rightarrow> (ret, w'))"

definition unlink_afp_list :: "world \<Rightarrow> world" where
  "unlink_afp_list w = w\<lparr>afp_list := []\<rparr>"

subsection \<open>get\_append\_list\<close>

text \<open>
  \<open>attr\<close> is \<open>None\<close> for \<^verbatim>\<open>NULL\<close>. \<^verbatim>\<open>strcmp\<close> of two NUL-terminated strings is 0
  exactly when they are equal; the \<^verbatim>\<open>break\<close> ends the loop at the first match.
\<close>

fun get_append_loop :: "xattr list \<Rightarrow> string option \<Rightarrow> nat list \<Rightarrow> nat list \<Rightarrow> nat list" where
  "get_append_loop xs attr [] app = app"
| "get_append_loop xs attr (k # ks) app =
     (case attr of
        None \<Rightarrow> get_append_loop xs attr ks (app @ [k])
      | Some a \<Rightarrow>
          if x_name (xs ! k) = a then app @ [k]
          else get_append_loop xs attr ks app)"

definition get_append_list :: "string option \<Rightarrow> world \<Rightarrow> int \<times> world" where
  "get_append_list attr w =
     (0, w\<lparr>append_list :=
              get_append_loop (xlist w) attr [0..<length (xlist w)] (append_list w)\<rparr>)"

subsection \<open>fix\_append\_list\<close>

text \<open>
  The non-dry-run branch of the append, for the record at position \<open>k\<close>: the buffer
  of \<^verbatim>\<open>length = xptr->length + 1\<close> bytes, the copy, the assignment
  \<^verbatim>\<open>buf[length] = '\0'\<close>, the replacement of value and length, and the write-back.
  \<open>Inl\<close> is the \<^verbatim>\<open>return (-1)\<close> after a failed \<^verbatim>\<open>malloc\<close>.
\<close>

definition fix_append_write ::
  "env \<Rightarrow> nat \<Rightarrow> int \<Rightarrow> world \<Rightarrow> world + int \<times> int \<times> world" where
  "fix_append_write e k ret w =
     (let xptr = xlist w ! k;
          len = x_length xptr + 1
      in case malloc e len w of
           (None, w1) \<Rightarrow> Inl (warn ''malloc'' w1)
         | (Some buf0, w1) \<Rightarrow>
             (case poke (memcpy buf0 (x_value xptr) (x_length xptr)) len (CHR 0x00) w1 of
                (buf, w2) \<Rightarrow>
                  let xptr' = xptr\<lparr>x_value := buf, x_length := len\<rparr>;
                      w3 = w2\<lparr>xlist := (xlist w2)[k := xptr']\<rparr>
                  in case extattr_set_fd e (x_name xptr') (x_value xptr') (x_length xptr') w3 of
                       (setret, w4) \<Rightarrow>
                         if setret < 0
                         then Inr (ret OR EX_EA_CORRUPTED, setret, warn ''extattr_set_fd'' w4)
                         else Inr (ret, setret, w4)))"

definition fix_append_body ::
  "env \<Rightarrow> string \<Rightarrow> 64 word \<Rightarrow> nat \<Rightarrow> int \<times> int \<times> world \<Rightarrow> world + int \<times> int \<times> world" where
  "fix_append_body e path flags k acc =
     (case acc of (ret, setret, w) \<Rightarrow>
        let xptr = xlist w ! k;
            w1 = (if flag_set flags F_DEBUG
                  then hexdump_ea path (x_name xptr) (x_value xptr) (x_length xptr) w else w)
        in if flag_set flags F_APPEND_NULL then
             (case (if \<not> flag_set flags F_DRY_RUN then fix_append_write e k ret w1
                    else Inr (ret, setret, w1)) of
                Inl w2 \<Rightarrow> Inl w2
              | Inr (ret2, setret2, w2) \<Rightarrow>
                  if 0 < setret2 \<or> flag_set flags F_DRY_RUN then
                    Inr (ret2 OR EX_OK, setret2,
                         if flag_set flags F_VERBOSE
                         then print (Null_appended path (x_name xptr)) w2 else w2)
                  else Inr (ret2, setret2, w2))
           else Inr (ret, setret, w1))"

fun fix_append_loop ::
  "env \<Rightarrow> string \<Rightarrow> 64 word \<Rightarrow> nat list \<Rightarrow> int \<times> int \<times> world \<Rightarrow> int \<times> world" where
  "fix_append_loop e path flags [] acc = (case acc of (ret, setret, w) \<Rightarrow> (ret, w))"
| "fix_append_loop e path flags (k # ks) acc =
     (case fix_append_body e path flags k acc of
        Inl w \<Rightarrow> (-1, w)
      | Inr acc' \<Rightarrow> fix_append_loop e path flags ks acc')"

definition fix_append_list :: "env \<Rightarrow> string \<Rightarrow> 64 word \<Rightarrow> world \<Rightarrow> int \<times> world" where
  "fix_append_list e path flags w = fix_append_loop e path flags (append_list w) (0, 0, w)"

definition unlink_append_list :: "world \<Rightarrow> world" where
  "unlink_append_list w = w\<lparr>append_list := []\<rparr>"

subsection \<open>get\_extended\_attributes\<close>

text \<open>
  A NUL-terminated string read from a buffer: the bytes before the first NUL.
  \<^verbatim>\<open>strncpy(dst, src, n)\<close> copies the string at \<open>src\<close>, at most \<open>n\<close> bytes of it, and
  fills up to \<open>n\<close> bytes with NUL. \<^verbatim>\<open>strncmp(a, b, n) == 0\<close> holds when the two
  strings agree on their first \<open>n\<close> bytes.
\<close>

definition cstr :: "string \<Rightarrow> string" where
  "cstr buf = takeWhile (\<lambda>c. c \<noteq> CHR 0x00) buf"

definition strncpy :: "string \<Rightarrow> string \<Rightarrow> nat \<Rightarrow> string" where
  "strncpy dst src n =
     (let s = cstr (take n src) in memcpy dst (s @ replicate (n - length s) (CHR 0x00)) n)"

definition strncmp_eq :: "string \<Rightarrow> string \<Rightarrow> nat \<Rightarrow> bool" where
  "strncmp_eq a b n = (take n (cstr a) = take n (cstr b))"

text \<open>
  The two fetching calls, as the manual pages have them: at most \<open>nbytes\<close> bytes are
  copied into the buffer and their number is returned; \<open>None\<close> is a negative return.
\<close>

definition extattr_list_fd :: "env \<Rightarrow> string \<Rightarrow> nat \<Rightarrow> (string \<times> nat) option" where
  "extattr_list_fd e buf nbytes =
     (case list_data e of
        None \<Rightarrow> None
      | Some d \<Rightarrow> Some (memcpy buf d nbytes, min nbytes (length d)))"

definition extattr_get_fd :: "env \<Rightarrow> string \<Rightarrow> string \<Rightarrow> nat \<Rightarrow> (string \<times> nat) option" where
  "extattr_get_fd e nm buf nbytes =
     (case get_data e nm of
        None \<Rightarrow> None
      | Some d \<Rightarrow> Some (memcpy buf d nbytes, min nbytes (length d)))"

text \<open>\<^verbatim>\<open>sizeof(struct xattr)\<close>: two pointers, a \<^verbatim>\<open>size_t\<close> and three pairs of links.\<close>

definition sizeof_xattr :: nat where
  "sizeof_xattr = 72"

text \<open>
  The string read from \<^verbatim>\<open>name\<close>. The buffer has \<^verbatim>\<open>ch\<close> bytes, all of them copied
  from the list, and the terminator is assigned to \<^verbatim>\<open>name[ch]\<close>, the byte behind them.
  A read that follows the assignment at once finds the terminator there: the string is
  the bytes of the buffer up to a NUL among them, else all of them (\<open>cstr name_buf\<close>).
  Later reads find behind the buffer whatever the memory there holds by then: still the
  terminator when that byte is one of the usable bytes of the allocation, and else what
  the allocator or a neighbouring object has put there, which is the host's to say.
\<close>

definition name_string :: "env \<Rightarrow> nat \<Rightarrow> string \<Rightarrow> nat \<Rightarrow> string" where
  "name_string e k name_buf ch =
     cstr (name_buf @ (if ch < usable e ch then [CHR 0x00] else past_end e k))"

text \<open>
  The body of the \<^verbatim>\<open>for\<close> loop at offset \<open>i\<close> of the name list; every \<^verbatim>\<open>continue\<close>
  is a branch that returns the state without a new record. \<^verbatim>\<open>strncmp\<close> and the size
  query read the name right after its terminator is assigned; the fetch and every later
  use of \<^verbatim>\<open>xptr->name\<close> read it after the value has been allocated (\<open>name_string\<close>).
  The source of the copy, \<^verbatim>\<open>&buf[i + 1]\<close>, holds the \<^verbatim>\<open>ch\<close> bytes of the name in
  every list the kernel delivers.
\<close>

definition gea_body :: "env \<Rightarrow> string \<Rightarrow> nat \<Rightarrow> world \<Rightarrow> world" where
  "gea_body e buf i w =
     (let ch = (of_char (buf ! i) :: nat) in
      case malloc e ch w of
        (None, w1) \<Rightarrow> warn ''malloc'' w1
      | (Some name0, w1) \<Rightarrow>
          (case poke (strncpy name0 (drop (i + 1) buf) ch) ch (CHR 0x00) w1 of
             (name_buf, w2) \<Rightarrow>
               let nm = cstr name_buf in
               if \<not> strncmp_eq nm ''DosStream.'' 10 then w2
               else
                 let getret = get_size e nm in
                 if getret < 0 then w2
                 else
                   (case malloc e (nat getret) w2 of
                      (None, w3) \<Rightarrow> warn ''malloc'' w3
                    | (Some value0, w3) \<Rightarrow>
                        let nm' = name_string e (nalloc w) name_buf ch in
                        (case extattr_get_fd e nm' value0 (nat getret) of
                           None \<Rightarrow> w3
                         | Some (value_buf, getret2) \<Rightarrow>
                             (case malloc e sizeof_xattr w3 of
                                (None, w4) \<Rightarrow> warn ''malloc'' w4
                              | (Some xptr0, w4) \<Rightarrow>
                                  w4\<lparr>xlist := xlist w4 @
                                    [\<lparr>x_name = nm', x_value = value_buf,
                                      x_length = getret2\<rparr>]\<rparr>)))))"

text \<open>\<^verbatim>\<open>for (i = 0; i < ret; i += ch + 1)\<close>, entered at offset \<open>i\<close>.\<close>

function gea_loop :: "env \<Rightarrow> string \<Rightarrow> nat \<Rightarrow> nat \<Rightarrow> world \<Rightarrow> world" where
  "gea_loop e buf ret i w =
     (if i < ret
      then gea_loop e buf ret (i + (of_char (buf ! i) :: nat) + 1) (gea_body e buf i w)
      else w)"
  by pat_completeness auto
termination
  by (relation "measure (\<lambda>(e, buf, ret, i, w). ret - i)") auto

declare gea_loop.simps [simp del]

definition get_extended_attributes :: "env \<Rightarrow> world \<Rightarrow> int \<times> world" where
  "get_extended_attributes e w =
     (let ret = list_size e in
      if ret < 0 then (EX_OK, w)
      else
        (case malloc e (nat ret) w of
           (None, w1) \<Rightarrow> (-1, warn ''malloc'' w1)
         | (Some buf0, w1) \<Rightarrow>
             let buflen = nat ret in
             (case extattr_list_fd e buf0 buflen of
                None \<Rightarrow> (-1, warn ''extattr_list_fd'' w1)
              | Some (buf, ret2) \<Rightarrow> (0, gea_loop e buf ret2 0 w1))))"

definition free_extended_attributes :: "world \<Rightarrow> world" where
  "free_extended_attributes w = w\<lparr>xlist := []\<rparr>"

subsection \<open>do\_ea\_stuff\_single\<close>

definition sys_close :: "int \<Rightarrow> world \<Rightarrow> world" where
  "sys_close fd w = w\<lparr>closed := closed w @ [fd]\<rparr>"

text \<open>The code from the label \<^verbatim>\<open>cleanup:\<close> to the \<^verbatim>\<open>return\<close>.\<close>

definition cleanup :: "int \<Rightarrow> int \<Rightarrow> world \<Rightarrow> int \<times> world" where
  "cleanup fd ret w =
     (let w1 = unlink_afp_list w;
          w2 = unlink_append_list w1;
          w3 = free_extended_attributes w2
      in (ret, if 0 < fd then sys_close fd w3 else w3))"

text \<open>
  The check/fix block of \<^verbatim>\<open>do_ea_stuff_single\<close>: \<open>Inl\<close> is its \<^verbatim>\<open>goto cleanup\<close>,
  \<open>Inr\<close> carries the value of \<^verbatim>\<open>ret\<close> after the block.
\<close>

definition afp_block :: "env \<Rightarrow> string \<Rightarrow> 64 word \<Rightarrow> int \<Rightarrow> world \<Rightarrow> world + int \<times> world" where
  "afp_block e path flags ret w =
     (if flag_set flags F_CHECK_AFP_EA \<or> flag_set flags F_FIX_AFP_EA then
        (case get_afp_list w of
           (r, w1) \<Rightarrow>
             (case fix_afp_list e path flags w1 of
                (setret, w2) \<Rightarrow> if setret < 0 then Inl w2 else Inr (setret, w2)))
      else Inr (ret, w))"

definition append_block ::
  "env \<Rightarrow> string \<Rightarrow> string option \<Rightarrow> 64 word \<Rightarrow> int \<Rightarrow> world \<Rightarrow> world + int \<times> world" where
  "append_block e path attr flags ret w =
     (if flag_set flags F_APPEND_NULL_ALL \<or> flag_set flags F_APPEND_NULL then
        (case get_append_list attr w of
           (r, w1) \<Rightarrow>
             (case fix_append_list e path flags w1 of
                (setret, w2) \<Rightarrow> if setret < 0 then Inl w2 else Inr (setret, w2)))
      else Inr (ret, w))"

definition do_ea_stuff_single ::
  "env \<Rightarrow> string \<Rightarrow> string option \<Rightarrow> 64 word \<Rightarrow> world \<Rightarrow> int \<times> world" where
  "do_ea_stuff_single e path attr flags w0 =
     (let w = w0\<lparr>xlist := [], afp_list := [], append_list := []\<rparr>;
          fd = sys_open e path
      in if fd < 0 then cleanup fd EX_OSERR (warn ''open'' w)
         else
           (case get_extended_attributes e w of
              (r, w1) \<Rightarrow>
                if r < 0 then cleanup fd EX_DATAERR w1
                else
                  (case afp_block e path flags 0 w1 of
                     Inl w2 \<Rightarrow> cleanup fd EX_DATAERR w2
                   | Inr (ret, w2) \<Rightarrow>
                       (case append_block e path attr flags ret w2 of
                          Inl w3 \<Rightarrow> cleanup fd EX_DATAERR w3
                        | Inr (ret', w3) \<Rightarrow> cleanup fd ret' w3))))"

subsection \<open>The attribute set the reader is to deliver\<close>




subsection \<open>Lines printed and bytes written by one iteration\<close>

text \<open>
  Names for what one iteration of the two repair loops prints about a record in its
  modes without a write, and for the buffer the append builds before its write-back:
  fresh memory of \<^verbatim>\<open>length + 1\<close> bytes with the old value copied over its front.
\<close>

definition check_lines :: "string \<Rightarrow> 64 word \<Rightarrow> xattr \<Rightarrow> msg list" where
  "check_lines path flags x =
     (if flag_set flags F_DEBUG
      then hexdump_lines path (x_name x) (x_value x) (x_length x) else []) @
     (if flag_set flags F_VERBOSE then [Is_corrupted path (x_name x)] else [])"

definition dry_fix_lines :: "string \<Rightarrow> 64 word \<Rightarrow> xattr \<Rightarrow> msg list" where
  "dry_fix_lines path flags x =
     (if flag_set flags F_DEBUG
      then hexdump_lines path (x_name x) (x_value x) (x_length x) else []) @
     (if flag_set flags F_CHECK_AFP_EA \<and> flag_set flags F_VERBOSE
      then [Is_corrupted path (x_name x)] else []) @
     (if flag_set flags F_FIX_AFP_EA \<and> flag_set flags F_VERBOSE
      then [Is_fixed path (x_name x)] else [])"

definition dry_append_lines :: "string \<Rightarrow> 64 word \<Rightarrow> xattr \<Rightarrow> msg list" where
  "dry_append_lines path flags x =
     (if flag_set flags F_DEBUG
      then hexdump_lines path (x_name x) (x_value x) (x_length x) else []) @
     (if flag_set flags F_APPEND_NULL \<and> flag_set flags F_VERBOSE
      then [Null_appended path (x_name x)] else [])"

definition appended_bytes :: "env \<Rightarrow> xattr \<Rightarrow> string" where
  "appended_bytes e x =
     memcpy (map (junk e) [0..<x_length x + 1]) (x_value x) (x_length x)"

subsection \<open>Objects of the scenarios\<close>

text \<open>
  The state before a cycle, over a given attribute storage, and two hosts for the
  scenarios of the specification: an object whose only attribute is
  \<^verbatim>\<open>DosStream.info\<close> = \<^verbatim>\<open>hello\<close>, and one whose only attribute is
  \<^verbatim>\<open>DosStream.rsrc\<close> = \<^verbatim>\<open>00 46 50 01 02\<close>. On both hosts every call succeeds, the
  descriptor is 3, fresh memory holds the byte \<^verbatim>\<open>a5\<close>, with which FreeBSD's
  allocator fills allocations when its junk option is on, and the usable sizes are that
  allocator's classes for small requests: 8 bytes, then the multiples of 16.
\<close>

definition world_init :: "(string \<rightharpoonup> string) \<Rightarrow> world" where
  "world_init st =
     \<lparr>xlist = [], afp_list = [], append_list = [], store = st, set_calls = [],
      out = [], closed = [], nalloc = 0, oob = []\<rparr>"

definition host_info :: env where
  "host_info =
     \<lparr>sys_open = (\<lambda>p. 3), malloc_null = (\<lambda>n. False), junk = (\<lambda>i. CHR 0xA5),
      usable = (\<lambda>n. if n \<le> 8 then 8 else 16 * ((n + 15) div 16)), past_end = (\<lambda>k. []),
      list_size = 15, list_data = Some (CHR 0x0E # ''DosStream.info''),
      get_size = (\<lambda>n. if n = ''DosStream.info'' then 5 else - 1),
      get_data = (\<lambda>n. if n = ''DosStream.info'' then Some ''hello'' else None),
      set_fails = (\<lambda>n d. False)\<rparr>"

definition rsrc_value :: string where
  "rsrc_value = [CHR 0x00, CHR ''F'', CHR ''P'', CHR 0x01, CHR 0x02]"

definition host_rsrc :: env where
  "host_rsrc =
     \<lparr>sys_open = (\<lambda>p. 3), malloc_null = (\<lambda>n. False), junk = (\<lambda>i. CHR 0xA5),
      usable = (\<lambda>n. if n \<le> 8 then 8 else 16 * ((n + 15) div 16)), past_end = (\<lambda>k. []),
      list_size = 15, list_data = Some (CHR 0x0E # ''DosStream.rsrc''),
      get_size = (\<lambda>n. if n = ''DosStream.rsrc'' then 5 else - 1),
      get_data = (\<lambda>n. if n = ''DosStream.rsrc'' then Some rsrc_value else None),
      set_fails = (\<lambda>n d. False)\<rparr>"

text \<open>
  An object with both attributes, \<^verbatim>\<open>DosStream.rsrc\<close> listed first, and the state
  that reading it leaves (lemma \<open>world_both_read\<close> below).
\<close>

definition host_both :: env where
  "host_both =
     \<lparr>sys_open = (\<lambda>p. 3), malloc_null = (\<lambda>n. False), junk = (\<lambda>i. CHR 0xA5),
      usable = (\<lambda>n. if n \<le> 8 then 8 else 16 * ((n + 15) div 16)), past_end = (\<lambda>k. []),
      list_size = 30,
      list_data = Some (CHR 0x0E # ''DosStream.rsrc'' @ CHR 0x0E # ''DosStream.info''),
      get_size = (\<lambda>n. if n = ''DosStream.rsrc'' \<or> n = ''DosStream.info'' then 5 else - 1),
      get_data = (\<lambda>n. if n = ''DosStream.rsrc'' then Some rsrc_value
                      else if n = ''DosStream.info'' then Some ''hello'' else None),
      set_fails = (\<lambda>n d. False)\<rparr>"

text \<open>
  An object whose only attribute has a name of 24 bytes, on the same host.
\<close>

definition host_long :: env where
  "host_long =
     \<lparr>sys_open = (\<lambda>p. 3), malloc_null = (\<lambda>n. False), junk = (\<lambda>i. CHR 0xA5),
      usable = (\<lambda>n. if n \<le> 8 then 8 else 16 * ((n + 15) div 16)), past_end = (\<lambda>k. []),
      list_size = 25, list_data = Some (CHR 0x18 # ''DosStream.0123456789abcd''),
      get_size = (\<lambda>n. if n = ''DosStream.0123456789abcd'' then 5 else - 1),
      get_data = (\<lambda>n. if n = ''DosStream.0123456789abcd'' then Some rsrc_value else None),
      set_fails = (\<lambda>n d. False)\<rparr>"

definition world_both :: world where
  "world_both =
     \<lparr>xlist = [\<lparr>x_name = ''DosStream.rsrc'', x_value = rsrc_value, x_length = 5\<rparr>,
               \<lparr>x_name = ''DosStream.info'', x_value = ''hello'', x_length = 5\<rparr>],
      afp_list = [], append_list = [],
      store = [''DosStream.rsrc'' \<mapsto> rsrc_value, ''DosStream.info'' \<mapsto> ''hello''],
      set_calls = [], out = [], closed = [], nalloc = 7, oob = [(14, 14), (14, 14)]\<rparr>"

section \<open>Properties\<close>

subsection \<open>Evaluation and buffers\<close>

text \<open>
  The equations that evaluate a run on a concrete object, and what the copying
  primitives do to the size and content of a buffer.
\<close>

lemmas run_defs = world_init_def host_info_def host_rsrc_def host_both_def host_long_def world_both_def
  rsrc_value_def
  do_ea_stuff_single_def get_extended_attributes_def
  gea_loop.simps [of _ _ _ 0] gea_loop.simps [of _ _ _ 15] gea_loop.simps [of _ _ _ 25]
  gea_loop.simps [of _ _ _ 30]
  malloc_def extattr_list_fd_def extattr_get_fd_def memcpy_def gea_body_def name_string_def poke_def strncpy_def cstr_def
  strncmp_eq_def sizeof_xattr_def afp_block_def append_block_def flag_set_def get_afp_list_def
  fix_afp_list_def fix_afp_body_def fix_afp_write_def get_append_list_def fix_append_list_def
  fix_append_body_def fix_append_write_def cleanup_def unlink_afp_list_def unlink_append_list_def
  free_extended_attributes_def sys_close_def warn_def print_def hexdump_ea_def hexdump_lines_def extattr_set_fd_def
  AFP_EA_CORRUPTED_def peek_def EX_OK_def EX_EA_CORRUPTED_def EX_DATAERR_def EX_OSERR_def
  F_APPEND_NULL_ALL_def F_APPEND_NULL_def F_CHECK_AFP_EA_def F_FIX_AFP_EA_def F_DRY_RUN_def F_VERBOSE_def F_DEBUG_def

lemma world_both_read:
  "get_extended_attributes host_both
     (world_init [''DosStream.rsrc'' \<mapsto> rsrc_value, ''DosStream.info'' \<mapsto> ''hello'']) =
   (0, world_both)"
  by (simp add: run_defs Let_def)

lemma length_memcpy: "length (memcpy dst src n) = length dst"
  by (simp add: memcpy_def Let_def)

lemma memcpy_fresh:
  assumes "n \<le> length src"
  shows "memcpy (map f [0..<n + 1]) src n = take n src @ [f n]"
  using assms by (simp add: memcpy_def Let_def min_def drop_map)

lemma length_strncpy: "length (strncpy dst src n) = length dst"
  by (simp add: strncpy_def Let_def length_memcpy)

lemma appended_bytes_eq:
  assumes "x_length x \<le> length (x_value x)"
  shows "appended_bytes e x = take (x_length x) (x_value x) @ [junk e (x_length x)]"
  unfolding appended_bytes_def using assms by (rule memcpy_fresh)

lemma x_name_list_update:
  assumes "x_name y = x_name (xs ! k)"
  shows "x_name ((xs[k := y]) ! j) = x_name (xs ! j)"
proof (cases "k < length xs")
  case True
  show ?thesis
  proof (cases "k = j")
    case True
    with \<open>k < length xs\<close> have "xs[k := y] ! j = y" by simp
    with assms True show ?thesis by simp
  next
    case False
    then have "xs[k := y] ! j = xs ! j" by simp
    then show ?thesis by simp
  qed
next
  case False
  then show ?thesis by (simp add: list_update_beyond)
qed

subsection \<open>Records read from the object are well formed\<close>

text \<open>
  \<^verbatim>\<open>get_extended_attributes\<close> only adds records whose \<^verbatim>\<open>length\<close> is within the
  buffer of their value, so the later passes read \<^verbatim>\<open>value[0..length)\<close> inside the
  allocation.
\<close>

lemma gea_body_wf:
  assumes "\<forall>x \<in> set (xlist w). x_length x \<le> length (x_value x)"
  shows "\<forall>x \<in> set (xlist (gea_body e buf i w)). x_length x \<le> length (x_value x)"
  using assms
  by (auto simp add: gea_body_def malloc_def poke_def length_strncpy length_memcpy Let_def warn_def
        print_def extattr_get_fd_def split: option.splits)

lemma gea_loop_wf:
  "\<forall>x \<in> set (xlist w). x_length x \<le> length (x_value x) \<Longrightarrow>
   \<forall>x \<in> set (xlist (gea_loop e buf ret i w)). x_length x \<le> length (x_value x)"
proof (induction e buf ret i w rule: gea_loop.induct)
  case (1 e buf ret i w)
  show ?case
  proof (cases "i < ret")
    case True
    from gea_body_wf [OF "1.prems"]
    have "\<forall>x \<in> set (xlist (gea_body e buf i w)). x_length x \<le> length (x_value x)" .
    from "1.IH" [OF True this] True show ?thesis
      by (subst gea_loop.simps) simp
  next
    case False
    with "1.prems" show ?thesis by (subst gea_loop.simps) simp
  qed
qed

lemma get_extended_attributes_wf:
  assumes "\<forall>x \<in> set (xlist w). x_length x \<le> length (x_value x)"
  shows "\<forall>x \<in> set (xlist (snd (get_extended_attributes e w))). x_length x \<le> length (x_value x)"
proof -
  have "\<forall>x \<in> set (xlist (gea_loop e buf ret 0 (w\<lparr>nalloc := n\<rparr>))). x_length x \<le> length (x_value x)"
    for buf ret n
    using assms by (intro gea_loop_wf) simp
  with assms show ?thesis
    by (simp add: get_extended_attributes_def Let_def malloc_def warn_def print_def
          extattr_list_fd_def split: option.splits)
qed

subsection \<open>Corruption classification\<close>

lemma AFP_EA_CORRUPTED_take:
  "AFP_EA_CORRUPTED v \<longleftrightarrow> take 3 v = [CHR 0x00, CHR ''F'', CHR ''P'']"
proof (cases v)
  case Nil
  then show ?thesis by (simp add: AFP_EA_CORRUPTED_def peek_def)
next
  case (Cons a v1)
  show ?thesis
  proof (cases v1)
    case Nil
    with Cons show ?thesis by (simp add: AFP_EA_CORRUPTED_def peek_def)
  next
    case (Cons b v2)
    show ?thesis
    proof (cases v2)
      case Nil
      with \<open>v = a # v1\<close> \<open>v1 = b # v2\<close> show ?thesis
        by (simp add: AFP_EA_CORRUPTED_def peek_def)
    next
      case (Cons c v3)
      with \<open>v = a # v1\<close> \<open>v1 = b # v2\<close> show ?thesis
        by (simp add: AFP_EA_CORRUPTED_def peek_def numeral_3_eq_3)
    qed
  qed
qed

lemma get_afp_loop_filter:
  "get_afp_loop xs ks afp =
     afp @ filter (\<lambda>k. 3 \<le> x_length (xs ! k) \<and> AFP_EA_CORRUPTED (x_value (xs ! k))) ks"
  by (induction ks arbitrary: afp) simp_all

text \<open>
  Claim C4. \<^verbatim>\<open>get_afp_list\<close> selects a record of the read set exactly when its
  length is at least 3 and its first three value bytes are \<^verbatim>\<open>00 'F' 'P'\<close>: the
  selection is extended by the positions of these records, in the order of the set.
  The pass changes nothing else: the records, the set and the storage stay as they are.
\<close>

theorem get_afp_list_selects_marker:
  "snd (get_afp_list w) =
     w\<lparr>afp_list := afp_list w @
          filter (\<lambda>k. 3 \<le> x_length (xlist w ! k) \<and>
                       take 3 (x_value (xlist w ! k)) = [CHR 0x00, CHR ''F'', CHR ''P''])
                 [0..<length (xlist w)]\<rparr>
   \<and> xlist (snd (get_afp_list w)) = xlist w
   \<and> store (snd (get_afp_list w)) = store w
   \<and> (\<forall>k < length (xlist w).
         k \<in> set (afp_list (snd (get_afp_list (w\<lparr>afp_list := []\<rparr>)))) \<longleftrightarrow>
         3 \<le> x_length (xlist w ! k) \<and>
         take 3 (x_value (xlist w ! k)) = [CHR 0x00, CHR ''F'', CHR ''P''])"
  by (simp add: get_afp_list_def get_afp_loop_filter AFP_EA_CORRUPTED_take)

theorem get_afp_list_selects_marker_witness:
  "afp_list (snd (get_afp_list world_both)) = [0]
   \<and> xlist (snd (get_afp_list world_both)) = xlist world_both
   \<and> (0 \<in> set (afp_list (snd (get_afp_list (world_both\<lparr>afp_list := []\<rparr>)))))
   \<and> (1 \<notin> set (afp_list (snd (get_afp_list (world_both\<lparr>afp_list := []\<rparr>)))))"
  using get_afp_list_selects_marker [of world_both]
  by (simp add: world_both_def rsrc_value_def)

subsection \<open>Dry run\<close>

text \<open>
  With \<^verbatim>\<open>F_DRY_RUN\<close> set, an iteration of either loop only prints, and so do the
  loops; reading the attributes and the cleanup never touch the storage.
\<close>

lemma fix_afp_body_dry:
  assumes "flag_set flags F_DRY_RUN"
  shows "fix_afp_body e path flags k (ret, setret, w) =
           (if flag_set flags F_CHECK_AFP_EA then ret OR 1 else ret, setret,
            w\<lparr>out := out w @ dry_fix_lines path flags (xlist w ! k)\<rparr>)"
  using assms
  by (simp add: fix_afp_body_def Let_def hexdump_ea_def print_def dry_fix_lines_def
        EX_EA_CORRUPTED_def EX_OK_def)

lemma fix_afp_loop_dry:
  assumes "flag_set flags F_DRY_RUN"
  shows "fix_afp_loop e path flags ks (ret, setret, w) =
           (if flag_set flags F_CHECK_AFP_EA \<and> ks \<noteq> [] then ret OR 1 else ret, setret,
            w\<lparr>out := out w @ concat (map (\<lambda>k. dry_fix_lines path flags (xlist w ! k)) ks)\<rparr>)"
proof (induction ks arbitrary: ret w)
  case Nil
  then show ?case by simp
next
  case (Cons k ks)
  show ?case
    by (simp add: fix_afp_body_dry [OF assms] Cons.IH)
qed

lemma fix_append_body_dry:
  assumes "flag_set flags F_DRY_RUN"
  shows "fix_append_body e path flags k (ret, setret, w) =
           Inr (ret, setret, w\<lparr>out := out w @ dry_append_lines path flags (xlist w ! k)\<rparr>)"
  using assms
  by (simp add: fix_append_body_def Let_def hexdump_ea_def print_def dry_append_lines_def EX_OK_def)

lemma fix_append_loop_dry:
  assumes "flag_set flags F_DRY_RUN"
  shows "fix_append_loop e path flags ks (ret, setret, w) =
           (ret, w\<lparr>out := out w @ concat (map (\<lambda>k. dry_append_lines path flags (xlist w ! k)) ks)\<rparr>)"
proof (induction ks arbitrary: w)
  case Nil
  then show ?case by simp
next
  case (Cons k ks)
  show ?case
    by (simp add: fix_append_body_dry [OF assms] Cons.IH)
qed

lemma gea_body_frame:
  "store (gea_body e buf i w) = store w"
  "set_calls (gea_body e buf i w) = set_calls w"
  "closed (gea_body e buf i w) = closed w"
  "afp_list (gea_body e buf i w) = afp_list w"
  "append_list (gea_body e buf i w) = append_list w"
  by (simp_all add: gea_body_def malloc_def poke_def length_strncpy Let_def warn_def print_def
        extattr_get_fd_def split: option.splits)

lemma gea_loop_frame:
  "store (gea_loop e buf ret i w) = store w \<and>
   set_calls (gea_loop e buf ret i w) = set_calls w \<and>
   closed (gea_loop e buf ret i w) = closed w"
proof (induction e buf ret i w rule: gea_loop.induct)
  case (1 e buf ret i w)
  show ?case
  proof (cases "i < ret")
    case True
    with 1 show ?thesis
      by (subst (1 2 3) gea_loop.simps) (simp add: gea_body_frame)
  next
    case False
    then show ?thesis by (subst (1 2 3) gea_loop.simps) simp
  qed
qed

lemma get_extended_attributes_frame:
  "store (snd (get_extended_attributes e w)) = store w"
  "set_calls (snd (get_extended_attributes e w)) = set_calls w"
  "closed (snd (get_extended_attributes e w)) = closed w"
  by (simp_all add: get_extended_attributes_def Let_def malloc_def warn_def print_def
        extattr_list_fd_def gea_loop_frame split: option.splits)

lemma cleanup_frame:
  "store (snd (cleanup fd ret w)) = store w"
  "set_calls (snd (cleanup fd ret w)) = set_calls w"
  "fst (cleanup fd ret w) = ret"
  "closed (snd (cleanup fd ret w)) = (if 0 < fd then closed w @ [fd] else closed w)"
  by (simp_all add: cleanup_def Let_def unlink_afp_list_def unlink_append_list_def
        free_extended_attributes_def sys_close_def)

lemma afp_block_dry:
  assumes "flag_set flags F_DRY_RUN"
  shows "\<exists>r w'. afp_block e path flags ret w = Inr (r, w') \<and> store w' = store w \<and> set_calls w' = set_calls w"
  using assms
  by (simp add: afp_block_def get_afp_list_def fix_afp_list_def fix_afp_loop_dry)

lemma append_block_dry:
  assumes "flag_set flags F_DRY_RUN"
  shows "\<exists>r w'. append_block e path attr flags ret w = Inr (r, w') \<and> store w' = store w \<and> set_calls w' = set_calls w"
  using assms
  by (simp add: append_block_def get_append_list_def fix_append_list_def fix_append_loop_dry)

lemma do_ea_stuff_single_dry:
  assumes "flag_set flags F_DRY_RUN"
  shows "store (snd (do_ea_stuff_single e path attr flags w)) = store w \<and>
         set_calls (snd (do_ea_stuff_single e path attr flags w)) = set_calls w"
proof -
  define w0 where "w0 = w\<lparr>xlist := [], afp_list := [], append_list := []\<rparr>"
  obtain r1 w1 where gea: "get_extended_attributes e w0 = (r1, w1)"
    by (cases "get_extended_attributes e w0") auto
  from get_extended_attributes_frame [of e w0] gea
  have w1: "store w1 = store w" "set_calls w1 = set_calls w" by (simp_all add: w0_def)
  from afp_block_dry [OF assms, of e path 0 w1] obtain r2 w2 where
    afp: "afp_block e path flags 0 w1 = Inr (r2, w2)"
    and w2: "store w2 = store w1" "set_calls w2 = set_calls w1" by blast
  from append_block_dry [OF assms, of e path attr r2 w2] obtain r3 w3 where
    app: "append_block e path attr flags r2 w2 = Inr (r3, w3)"
    and w3: "store w3 = store w2" "set_calls w3 = set_calls w2" by blast
  show ?thesis
    unfolding do_ea_stuff_single_def Let_def w0_def [symmetric]
    using gea afp app w1 w2 w3
    by (simp add: cleanup_frame warn_def print_def w0_def)
qed

text \<open>
  Claim C5. With dry-run set, whatever the other flags, neither \<^verbatim>\<open>fix_afp_list\<close>
  nor \<^verbatim>\<open>fix_append_list\<close> issues a call of \<^verbatim>\<open>extattr_set_fd\<close>, and the stored
  values and the records in memory (value bytes and length) are the same after the call
  as before; the same holds for the storage over a whole cycle of
  \<^verbatim>\<open>do_ea_stuff_single\<close>.
\<close>

theorem dry_run_issues_no_write:
  assumes "flag_set flags F_DRY_RUN"
  shows "set_calls (snd (fix_afp_list e path flags w)) = set_calls w
    \<and> store (snd (fix_afp_list e path flags w)) = store w
    \<and> xlist (snd (fix_afp_list e path flags w)) = xlist w
    \<and> set_calls (snd (fix_append_list e path flags w)) = set_calls w
    \<and> store (snd (fix_append_list e path flags w)) = store w
    \<and> xlist (snd (fix_append_list e path flags w)) = xlist w
    \<and> set_calls (snd (do_ea_stuff_single e path attr flags w)) = set_calls w
    \<and> store (snd (do_ea_stuff_single e path attr flags w)) = store w"
  using do_ea_stuff_single_dry [OF assms, of e path attr w]
  by (simp add: fix_afp_list_def fix_append_list_def fix_afp_loop_dry [OF assms]
        fix_append_loop_dry [OF assms])

theorem dry_run_issues_no_write_witness:
  "flag_set (F_FIX_AFP_EA OR F_APPEND_NULL OR F_DRY_RUN) F_DRY_RUN
   \<and> xlist (snd (fix_afp_list host_both ''/f'' (F_FIX_AFP_EA OR F_APPEND_NULL OR F_DRY_RUN)
         (world_both\<lparr>afp_list := [0], append_list := [0, 1]\<rparr>))) = xlist world_both
   \<and> xlist (snd (fix_append_list host_both ''/f'' (F_FIX_AFP_EA OR F_APPEND_NULL OR F_DRY_RUN)
         (world_both\<lparr>afp_list := [0], append_list := [0, 1]\<rparr>))) = xlist world_both
   \<and> set_calls (snd (fix_append_list host_both ''/f'' (F_FIX_AFP_EA OR F_APPEND_NULL OR F_DRY_RUN)
         (world_both\<lparr>afp_list := [0], append_list := [0, 1]\<rparr>))) = []
   \<and> store (snd (do_ea_stuff_single host_both ''/f'' None (F_FIX_AFP_EA OR F_APPEND_NULL OR F_DRY_RUN)
         world_both)) ''DosStream.rsrc'' = Some rsrc_value"
proof -
  have f: "flag_set (F_FIX_AFP_EA OR F_APPEND_NULL OR F_DRY_RUN) F_DRY_RUN"
    by (simp add: flag_set_def F_FIX_AFP_EA_def F_APPEND_NULL_def F_DRY_RUN_def)
  show ?thesis
    using f dry_run_issues_no_write [OF f, of host_both "''/f''"
        "world_both\<lparr>afp_list := [0], append_list := [0, 1]\<rparr>" None]
      dry_run_issues_no_write [OF f, of host_both "''/f''" world_both None]
    by (simp add: world_both_def)
qed

subsection \<open>Check mode\<close>

text \<open>
  With check mode on and fix mode off, \<^verbatim>\<open>fix_afp_list\<close> issues no write and changes
  no record; it returns 1 exactly when the selection is not empty and prints one line for
  each selected record when verbose. In a cycle without an append pass this result is the
  exit code of the object.
\<close>

lemma fix_afp_body_check:
  assumes "flag_set flags F_CHECK_AFP_EA" "\<not> flag_set flags F_FIX_AFP_EA"
  shows "fix_afp_body e path flags k (ret, setret, w) =
           (ret OR 1, setret, w\<lparr>out := out w @ check_lines path flags (xlist w ! k)\<rparr>)"
  using assms
  by (simp add: fix_afp_body_def Let_def hexdump_ea_def print_def check_lines_def EX_EA_CORRUPTED_def)

lemma fix_afp_loop_check:
  assumes "flag_set flags F_CHECK_AFP_EA" "\<not> flag_set flags F_FIX_AFP_EA"
  shows "fix_afp_loop e path flags ks (ret, setret, w) =
           (if ks = [] then ret else ret OR 1, setret,
            w\<lparr>out := out w @ concat (map (\<lambda>k. check_lines path flags (xlist w ! k)) ks)\<rparr>)"
proof (induction ks arbitrary: ret w)
  case Nil
  then show ?case by simp
next
  case (Cons k ks)
  show ?case
    by (simp add: fix_afp_body_check [OF assms] Cons.IH)
qed

lemma fix_afp_list_check:
  assumes "flag_set flags F_CHECK_AFP_EA" "\<not> flag_set flags F_FIX_AFP_EA"
  shows "fix_afp_list e path flags w =
           (if afp_list w = [] then 0 else 1,
            w\<lparr>out := out w @ concat (map (\<lambda>k. check_lines path flags (xlist w ! k)) (afp_list w))\<rparr>)"
  by (simp add: fix_afp_list_def fix_afp_loop_check [OF assms])

lemma do_ea_stuff_single_check_only:
  assumes "flag_set flags F_CHECK_AFP_EA" "\<not> flag_set flags F_FIX_AFP_EA"
    and "\<not> flag_set flags F_APPEND_NULL_ALL" "\<not> flag_set flags F_APPEND_NULL"
    and "0 \<le> sys_open e path"
    and "0 \<le> fst (get_extended_attributes e (w\<lparr>xlist := [], afp_list := [], append_list := []\<rparr>))"
  shows "fst (do_ea_stuff_single e path attr flags w) =
     (if afp_list (snd (get_afp_list (snd (get_extended_attributes e
            (w\<lparr>xlist := [], afp_list := [], append_list := []\<rparr>))))) = [] then 0 else 1)"
proof -
  define w0 where "w0 = w\<lparr>xlist := [], afp_list := [], append_list := []\<rparr>"
  obtain r1 w1 where gea: "get_extended_attributes e w0 = (r1, w1)"
    by (cases "get_extended_attributes e w0") auto
  with assms(6) have r1: "\<not> r1 < 0" by (simp add: w0_def)
  from assms(5) have fd: "\<not> sys_open e path < 0" by simp
  obtain r2 w2 where g: "get_afp_list w1 = (r2, w2)" by (cases "get_afp_list w1") auto
  have afp: "afp_block e path flags 0 w1 =
      Inr (if afp_list w2 = [] then 0 else 1,
           w2\<lparr>out := out w2 @ concat (map (\<lambda>k. check_lines path flags (xlist w2 ! k)) (afp_list w2))\<rparr>)"
    using assms(1) g by (simp add: afp_block_def fix_afp_list_check [OF assms(1,2)])
  have app: "append_block e path attr flags r w' = Inr (r, w')" for r w'
    using assms(3,4) by (simp add: append_block_def)
  show ?thesis
    unfolding do_ea_stuff_single_def Let_def w0_def [symmetric]
    using fd r1 by (simp add: gea afp app cleanup_frame g)
qed

text \<open>
  Claim C6, evaluated on the object of Scenario A. Checked alone, the cycle returns 1.
  With check and all-append requested (check mode on, fix mode off), the corruption
  selection holds the one record, the repair pass issues no write and its result has
  the Corrupted bit, and the cycle returns 0: the exit code of the object is not 1.
\<close>

theorem check_exit_code_lost_to_append_pass:
  "(let flags = F_CHECK_AFP_EA OR F_APPEND_NULL_ALL OR F_APPEND_NULL;
        w0 = world_init [''DosStream.rsrc'' \<mapsto> rsrc_value];
        w1 = snd (get_afp_list (snd (get_extended_attributes host_rsrc w0)));
        repaired = fix_afp_list host_rsrc ''/f'' flags w1
    in flag_set flags F_CHECK_AFP_EA \<and> \<not> flag_set flags F_FIX_AFP_EA
       \<and> afp_list w1 = [0]
       \<and> fst repaired AND EX_EA_CORRUPTED \<noteq> 0
       \<and> set_calls (snd repaired) = []
       \<and> xlist (snd repaired) = xlist w1
       \<and> fst (do_ea_stuff_single host_rsrc ''/f'' None flags w0) = 0
       \<and> fst (do_ea_stuff_single host_rsrc ''/f'' None F_CHECK_AFP_EA w0) = 1)"
  by (simp add: run_defs Let_def)

subsection \<open>Write failures\<close>

text \<open>
  Outside dry-run, an iteration of the fix issues one call of \<^verbatim>\<open>extattr_set_fd\<close>
  under the record's name, and so does an iteration of the append once its buffer is
  allocated; a failing call sets the bit \<^verbatim>\<open>EX_EA_CORRUPTED\<close> in \<^verbatim>\<open>ret\<close> and the
  loop goes on. The append also records the overrun of its terminator, and the bytes it
  writes are \<open>appended_bytes\<close>.
\<close>

lemma fix_afp_write_calls:
  "\<exists>d sr w'. fix_afp_write e k ret w =
       (if set_fails e (x_name (xlist w ! k)) d then ret OR 1 else ret, sr, w')
     \<and> set_calls w' = set_calls w @ [(x_name (xlist w ! k), d)]
     \<and> (\<forall>j. x_name (xlist w' ! j) = x_name (xlist w ! j))"
  by (simp add: fix_afp_write_def poke_def extattr_set_fd_def Let_def warn_def print_def
        EX_EA_CORRUPTED_def x_name_list_update)

lemma fix_afp_body_calls:
  assumes "flag_set flags F_FIX_AFP_EA" "\<not> flag_set flags F_DRY_RUN"
  shows "\<exists>d sr w'. fix_afp_body e path flags k (ret, setret, w) =
       (if flag_set flags F_CHECK_AFP_EA \<or> set_fails e (x_name (xlist w ! k)) d
        then ret OR 1 else ret, sr, w')
     \<and> set_calls w' = set_calls w @ [(x_name (xlist w ! k), d)]
     \<and> (\<forall>j. x_name (xlist w' ! j) = x_name (xlist w ! j))"
proof -
  define w1 where "w1 = (if flag_set flags F_DEBUG
          then hexdump_ea path (x_name (xlist w ! k)) (x_value (xlist w ! k)) (x_length (xlist w ! k)) w
          else w)"
  define w2 where "w2 = (if flag_set flags F_CHECK_AFP_EA \<and> flag_set flags F_VERBOSE
       then print (Is_corrupted path (x_name (xlist w ! k))) w1 else w1)"
  define ret1 where "ret1 = (if flag_set flags F_CHECK_AFP_EA then ret OR EX_EA_CORRUPTED else ret)"
  have w2: "xlist w2 = xlist w" "set_calls w2 = set_calls w"
    by (simp_all add: w2_def w1_def print_def hexdump_ea_def)
  from fix_afp_write_calls [of e k ret1 w2] obtain d sr w3 where
    wr: "fix_afp_write e k ret1 w2 =
           (if set_fails e (x_name (xlist w2 ! k)) d then ret1 OR 1 else ret1, sr, w3)"
    and calls: "set_calls w3 = set_calls w2 @ [(x_name (xlist w2 ! k), d)]"
    and names: "\<forall>j. x_name (xlist w3 ! j) = x_name (xlist w2 ! j)"
    by blast
  have unfold: "fix_afp_body e path flags k (ret, setret, w) =
      (case fix_afp_write e k ret1 w2 of
         (ret2, setret2, w3) \<Rightarrow>
           if 0 < setret2 then
             (ret2 OR EX_OK, setret2,
              if flag_set flags F_VERBOSE
              then print (Is_fixed path (x_name (xlist w ! k))) w3 else w3)
           else (ret2, setret2, w3))"
    using assms unfolding fix_afp_body_def Let_def w1_def w2_def ret1_def by simp
  have body: "fix_afp_body e path flags k (ret, setret, w) =
      (if set_fails e (x_name (xlist w ! k)) d then ret1 OR 1 else ret1, sr,
       if 0 < sr \<and> flag_set flags F_VERBOSE then print (Is_fixed path (x_name (xlist w ! k))) w3 else w3)"
    unfolding unfold wr using w2 by (simp add: EX_OK_def)
  show ?thesis
    apply (rule exI [of _ d], rule exI [of _ sr])
    apply (rule exI [of _ "if 0 < sr \<and> flag_set flags F_VERBOSE then print (Is_fixed path (x_name (xlist w ! k))) w3 else w3"])
    using calls names w2 by (simp add: body ret1_def print_def EX_EA_CORRUPTED_def)
qed

lemma fix_afp_loop_calls:
  assumes "flag_set flags F_FIX_AFP_EA" "\<not> flag_set flags F_DRY_RUN"
  shows "\<exists>calls sr w'. fix_afp_loop e path flags ks (ret, setret, w) =
       (if (flag_set flags F_CHECK_AFP_EA \<and> ks \<noteq> []) \<or>
           (\<exists>c \<in> set calls. set_fails e (fst c) (snd c))
        then ret OR 1 else ret, sr, w')
     \<and> set_calls w' = set_calls w @ calls
     \<and> map fst calls = map (\<lambda>k. x_name (xlist w ! k)) ks"
proof (induction ks arbitrary: ret setret w)
  case Nil
  show ?case by simp
next
  case (Cons k ks)
  from fix_afp_body_calls [OF assms, of e path k ret setret w] obtain d sr1 w1 where
    body: "fix_afp_body e path flags k (ret, setret, w) =
       (if flag_set flags F_CHECK_AFP_EA \<or> set_fails e (x_name (xlist w ! k)) d
        then ret OR 1 else ret, sr1, w1)"
    and calls1: "set_calls w1 = set_calls w @ [(x_name (xlist w ! k), d)]"
    and names: "\<forall>j. x_name (xlist w1 ! j) = x_name (xlist w ! j)"
    by blast
  define r1 where "r1 = (if flag_set flags F_CHECK_AFP_EA \<or> set_fails e (x_name (xlist w ! k)) d
        then ret OR 1 else ret)"
  from Cons.IH [of r1 sr1 w1] obtain calls sr w' where
    loop: "fix_afp_loop e path flags ks (r1, sr1, w1) =
       (if (flag_set flags F_CHECK_AFP_EA \<and> ks \<noteq> []) \<or>
           (\<exists>c \<in> set calls. set_fails e (fst c) (snd c))
        then r1 OR 1 else r1, sr, w')"
    and calls: "set_calls w' = set_calls w1 @ calls"
    and fsts: "map fst calls = map (\<lambda>k. x_name (xlist w1 ! k)) ks"
    by blast
  have step: "fix_afp_loop e path flags (k # ks) (ret, setret, w) =
       (if (flag_set flags F_CHECK_AFP_EA \<and> ks \<noteq> []) \<or>
           (\<exists>c \<in> set calls. set_fails e (fst c) (snd c))
        then r1 OR 1 else r1, sr, w')"
    by (simp add: body r1_def [symmetric] loop)
  show ?case
    apply (rule exI [of _ "(x_name (xlist w ! k), d) # calls"])
    apply (rule exI [of _ sr], rule exI [of _ w'])
    unfolding step using calls calls1 fsts names
    by (auto simp add: r1_def)
qed

lemma fix_append_write_calls:
  assumes "\<not> malloc_null e (nalloc w)"
  shows "\<exists>sr w'. fix_append_write e k ret w =
       Inr (if set_fails e (x_name (xlist w ! k)) (appended_bytes e (xlist w ! k))
            then ret OR 1 else ret, sr, w')
     \<and> set_calls w' = set_calls w @ [(x_name (xlist w ! k), appended_bytes e (xlist w ! k))]
     \<and> oob w' = oob w @ [(x_length (xlist w ! k) + 1, x_length (xlist w ! k) + 1)]
     \<and> (\<forall>j. x_name (xlist w' ! j) = x_name (xlist w ! j))"
  using assms
  by (simp add: fix_append_write_def malloc_def poke_def length_memcpy extattr_set_fd_def Let_def
        warn_def print_def EX_EA_CORRUPTED_def x_name_list_update appended_bytes_def)

lemma fix_append_body_calls:
  assumes "flag_set flags F_APPEND_NULL" "\<not> flag_set flags F_DRY_RUN"
    and "\<not> malloc_null e (nalloc w)"
  shows "\<exists>d sr w'. fix_append_body e path flags k (ret, setret, w) =
       Inr (if set_fails e (x_name (xlist w ! k)) d then ret OR 1 else ret, sr, w')
     \<and> set_calls w' = set_calls w @ [(x_name (xlist w ! k), d)]
     \<and> (\<forall>j. x_name (xlist w' ! j) = x_name (xlist w ! j))"
proof -
  define w1 where "w1 = (if flag_set flags F_DEBUG
          then hexdump_ea path (x_name (xlist w ! k)) (x_value (xlist w ! k)) (x_length (xlist w ! k)) w
          else w)"
  have w1: "xlist w1 = xlist w" "set_calls w1 = set_calls w" "nalloc w1 = nalloc w"
    by (simp_all add: w1_def hexdump_ea_def)
  from assms(3) w1 have "\<not> malloc_null e (nalloc w1)" by simp
  from fix_append_write_calls [OF this, of k ret] obtain sr w2 where
    wr: "fix_append_write e k ret w1 =
           Inr (if set_fails e (x_name (xlist w1 ! k)) (appended_bytes e (xlist w1 ! k))
                then ret OR 1 else ret, sr, w2)"
    and calls: "set_calls w2 = set_calls w1 @ [(x_name (xlist w1 ! k), appended_bytes e (xlist w1 ! k))]"
    and names: "\<forall>j. x_name (xlist w2 ! j) = x_name (xlist w1 ! j)"
    by blast
  have unfold: "fix_append_body e path flags k (ret, setret, w) =
      (case fix_append_write e k ret w1 of
         Inl w2 \<Rightarrow> Inl w2
       | Inr (ret2, setret2, w2) \<Rightarrow>
           if 0 < setret2 then
             Inr (ret2 OR EX_OK, setret2,
                  if flag_set flags F_VERBOSE
                  then print (Null_appended path (x_name (xlist w ! k))) w2 else w2)
           else Inr (ret2, setret2, w2))"
    using assms(1,2) unfolding fix_append_body_def Let_def w1_def by (simp cong: sum.case_cong)
  have body: "fix_append_body e path flags k (ret, setret, w) =
      Inr (if set_fails e (x_name (xlist w ! k)) (appended_bytes e (xlist w ! k)) then ret OR 1 else ret, sr,
       if 0 < sr \<and> flag_set flags F_VERBOSE then print (Null_appended path (x_name (xlist w ! k))) w2 else w2)"
    unfolding unfold wr using w1 by (simp add: EX_OK_def)
  show ?thesis
    apply (rule exI [of _ "appended_bytes e (xlist w ! k)"], rule exI [of _ sr])
    apply (rule exI [of _ "if 0 < sr \<and> flag_set flags F_VERBOSE then print (Null_appended path (x_name (xlist w ! k))) w2 else w2"])
    using calls names w1 by (simp add: body print_def)
qed

lemma fix_append_loop_calls:
  assumes "flag_set flags F_APPEND_NULL" "\<not> flag_set flags F_DRY_RUN"
    and "\<forall>n. \<not> malloc_null e n"
  shows "\<exists>calls w'. fix_append_loop e path flags ks (ret, setret, w) =
       (if \<exists>c \<in> set calls. set_fails e (fst c) (snd c) then ret OR 1 else ret, w')
     \<and> set_calls w' = set_calls w @ calls
     \<and> map fst calls = map (\<lambda>k. x_name (xlist w ! k)) ks"
proof (induction ks arbitrary: ret setret w)
  case Nil
  show ?case by simp
next
  case (Cons k ks)
  from assms(3) have "\<not> malloc_null e (nalloc w)" by simp
  from fix_append_body_calls [OF assms(1,2) this, of path k ret setret] obtain d sr1 w1 where
    body: "fix_append_body e path flags k (ret, setret, w) =
       Inr (if set_fails e (x_name (xlist w ! k)) d then ret OR 1 else ret, sr1, w1)"
    and calls1: "set_calls w1 = set_calls w @ [(x_name (xlist w ! k), d)]"
    and names: "\<forall>j. x_name (xlist w1 ! j) = x_name (xlist w ! j)"
    by blast
  define r1 where "r1 = (if set_fails e (x_name (xlist w ! k)) d then ret OR 1 else ret)"
  from Cons.IH [of r1 sr1 w1] obtain calls w' where
    loop: "fix_append_loop e path flags ks (r1, sr1, w1) =
       (if \<exists>c \<in> set calls. set_fails e (fst c) (snd c) then r1 OR 1 else r1, w')"
    and calls: "set_calls w' = set_calls w1 @ calls"
    and fsts: "map fst calls = map (\<lambda>k. x_name (xlist w1 ! k)) ks"
    by blast
  have step: "fix_append_loop e path flags (k # ks) (ret, setret, w) =
       (if \<exists>c \<in> set calls. set_fails e (fst c) (snd c) then r1 OR 1 else r1, w')"
    by (simp add: body r1_def [symmetric] loop)
  show ?case
    apply (rule exI [of _ "(x_name (xlist w ! k), d) # calls"])
    apply (rule exI [of _ w'])
    unfolding step using calls calls1 fsts names
    by (auto simp add: r1_def)
qed

text \<open>
  Claim C7. In a repair or append pass that is not a dry run, every selected record
  gets its call of \<^verbatim>\<open>extattr_set_fd\<close>, in the order of the selection, whether or
  not earlier calls failed; a failed call only sets the failure bit of the result. (The
  append pass stops early only when \<^verbatim>\<open>malloc\<close> fails.)
\<close>

theorem write_failure_does_not_abort:
  assumes "\<not> flag_set flags F_DRY_RUN"
  shows "(flag_set flags F_FIX_AFP_EA \<longrightarrow>
           (\<exists>calls. set_calls (snd (fix_afp_list e path flags w)) = set_calls w @ calls
              \<and> map fst calls = map (\<lambda>k. x_name (xlist w ! k)) (afp_list w)
              \<and> fst (fix_afp_list e path flags w) =
                  (if (flag_set flags F_CHECK_AFP_EA \<and> afp_list w \<noteq> []) \<or>
                      (\<exists>c \<in> set calls. set_fails e (fst c) (snd c))
                   then 1 else 0)))
       \<and> (flag_set flags F_APPEND_NULL \<longrightarrow> (\<forall>n. \<not> malloc_null e n) \<longrightarrow>
           (\<exists>calls. set_calls (snd (fix_append_list e path flags w)) = set_calls w @ calls
              \<and> map fst calls = map (\<lambda>k. x_name (xlist w ! k)) (append_list w)
              \<and> fst (fix_append_list e path flags w) =
                  (if \<exists>c \<in> set calls. set_fails e (fst c) (snd c) then 1 else 0)))"
proof (intro conjI impI)
  assume fx: "flag_set flags F_FIX_AFP_EA"
  from fix_afp_loop_calls [OF fx assms, of e path "afp_list w" 0 0 w]
  obtain calls sr w' where
    "fix_afp_loop e path flags (afp_list w) (0, 0, w) =
       (if (flag_set flags F_CHECK_AFP_EA \<and> afp_list w \<noteq> []) \<or>
           (\<exists>c \<in> set calls. set_fails e (fst c) (snd c))
        then 0 OR 1 else 0, sr, w')"
    and "set_calls w' = set_calls w @ calls"
    and "map fst calls = map (\<lambda>k. x_name (xlist w ! k)) (afp_list w)"
    by blast
  then show "\<exists>calls. set_calls (snd (fix_afp_list e path flags w)) = set_calls w @ calls
              \<and> map fst calls = map (\<lambda>k. x_name (xlist w ! k)) (afp_list w)
              \<and> fst (fix_afp_list e path flags w) =
                  (if (flag_set flags F_CHECK_AFP_EA \<and> afp_list w \<noteq> []) \<or>
                      (\<exists>c \<in> set calls. set_fails e (fst c) (snd c))
                   then 1 else 0)"
    by (intro exI [of _ calls]) (simp add: fix_afp_list_def)
next
  assume app: "flag_set flags F_APPEND_NULL" and mem: "\<forall>n. \<not> malloc_null e n"
  from fix_append_loop_calls [OF app assms mem, of path "append_list w" 0 0 w]
  obtain calls w' where
    "fix_append_loop e path flags (append_list w) (0, 0, w) =
       (if \<exists>c \<in> set calls. set_fails e (fst c) (snd c) then 0 OR 1 else 0, w')"
    and "set_calls w' = set_calls w @ calls"
    and "map fst calls = map (\<lambda>k. x_name (xlist w ! k)) (append_list w)"
    by blast
  then show "\<exists>calls. set_calls (snd (fix_append_list e path flags w)) = set_calls w @ calls
              \<and> map fst calls = map (\<lambda>k. x_name (xlist w ! k)) (append_list w)
              \<and> fst (fix_append_list e path flags w) =
                  (if \<exists>c \<in> set calls. set_fails e (fst c) (snd c) then 1 else 0)"
    by (intro exI [of _ calls]) (simp add: fix_append_list_def)
qed

theorem write_failure_does_not_abort_witness:
  "\<not> flag_set (F_FIX_AFP_EA OR F_APPEND_NULL) F_DRY_RUN
   \<and> flag_set (F_FIX_AFP_EA OR F_APPEND_NULL) F_FIX_AFP_EA
   \<and> flag_set (F_FIX_AFP_EA OR F_APPEND_NULL) F_APPEND_NULL
   \<and> (\<forall>n. \<not> malloc_null (host_both\<lparr>set_fails := (\<lambda>n d. n = ''DosStream.rsrc'')\<rparr>) n)
   \<and> fix_afp_list (host_both\<lparr>set_fails := (\<lambda>n d. n = ''DosStream.rsrc'')\<rparr>) ''/f''
         (F_FIX_AFP_EA OR F_APPEND_NULL) (world_both\<lparr>afp_list := [0, 1]\<rparr>) =
       (1, world_both\<lparr>afp_list := [0, 1],
             xlist := [\<lparr>x_name = ''DosStream.rsrc'', x_value = ''AFP'' @ [CHR 0x01, CHR 0x02], x_length = 5\<rparr>,
                       \<lparr>x_name = ''DosStream.info'', x_value = ''Aello'', x_length = 5\<rparr>],
             set_calls := [(''DosStream.rsrc'', ''AFP'' @ [CHR 0x01, CHR 0x02]),
                           (''DosStream.info'', ''Aello'')],
             store := [''DosStream.rsrc'' \<mapsto> rsrc_value, ''DosStream.info'' \<mapsto> ''Aello''],
             out := [Warn ''extattr_set_fd'']\<rparr>)
   \<and> fst (fix_append_list (host_both\<lparr>set_fails := (\<lambda>n d. n = ''DosStream.rsrc'')\<rparr>) ''/f''
         (F_FIX_AFP_EA OR F_APPEND_NULL) (world_both\<lparr>append_list := [0, 1]\<rparr>)) = 1
   \<and> map fst (set_calls (snd (fix_append_list (host_both\<lparr>set_fails := (\<lambda>n d. n = ''DosStream.rsrc'')\<rparr>) ''/f''
         (F_FIX_AFP_EA OR F_APPEND_NULL) (world_both\<lparr>append_list := [0, 1]\<rparr>)))) =
       [''DosStream.rsrc'', ''DosStream.info'']"
proof -
  have f: "\<not> flag_set (F_FIX_AFP_EA OR F_APPEND_NULL) F_DRY_RUN"
    by (simp add: flag_set_def F_FIX_AFP_EA_def F_APPEND_NULL_def F_DRY_RUN_def)
  show ?thesis
    using f
      write_failure_does_not_abort [OF f,
        of "host_both\<lparr>set_fails := (\<lambda>n d. n = ''DosStream.rsrc'')\<rparr>" "''/f''"
           "world_both\<lparr>afp_list := [0, 1]\<rparr>"]
      write_failure_does_not_abort [OF f,
        of "host_both\<lparr>set_fails := (\<lambda>n d. n = ''DosStream.rsrc'')\<rparr>" "''/f''"
           "world_both\<lparr>append_list := [0, 1]\<rparr>"]
    by (simp add: run_defs Let_def fun_upd_twist)
qed

subsection \<open>Reading the attributes\<close>

lemma gea_body_skip:
  assumes "malloc_null e (nalloc w)
     \<or> get_size e (cstr (strncpy (map (junk e) [0..<of_char (buf ! i)]) (drop (i + 1) buf) (of_char (buf ! i)))) < 0
     \<or> malloc_null e (nalloc w + 1)
     \<or> get_data e (name_string e (nalloc w)
          (strncpy (map (junk e) [0..<of_char (buf ! i)]) (drop (i + 1) buf) (of_char (buf ! i)))
          (of_char (buf ! i))) = None"
  shows "xlist (gea_body e buf i w) = xlist w"
  using assms
  by (auto simp add: gea_body_def malloc_def poke_def length_strncpy Let_def warn_def print_def
        extattr_get_fd_def split: option.splits)
















subsection \<open>The two terminator writes\<close>

text \<open>
  Each name that is allocated gets its terminator written at the index equal to the
  size of its buffer.
\<close>

lemma gea_body_overrun:
  assumes "\<not> malloc_null e (nalloc w)"
  shows "\<exists>rest. oob (gea_body e buf i w) = oob w @ (of_char (buf ! i), of_char (buf ! i)) # rest"
  using assms
  by (simp add: gea_body_def malloc_def poke_def length_strncpy Let_def warn_def print_def
        extattr_get_fd_def split: option.splits)

text \<open>
  What the overrun does to the record depends on the host. Where the allocator sets
  aside 32 bytes for a name of 24, the terminator stays and the record is read. Where it
  sets aside exactly 24 bytes and writes its own data behind them when the value is
  allocated, the fetch is made under another name and the record is lost.
\<close>

lemma long_name_read:
  "get_extended_attributes host_long (world_init Map.empty) =
     (0, (world_init Map.empty)
           \<lparr>xlist := [\<lparr>x_name = ''DosStream.0123456789abcd'', x_value = rsrc_value,
                       x_length = 5\<rparr>],
            nalloc := 4, oob := [(24, 24)]\<rparr>)"
  by (simp add: run_defs Let_def)

lemma long_name_lost:
  "get_extended_attributes
     (host_long\<lparr>usable := (\<lambda>n. max 24 (16 * ((n + 23) div 16) - 8)), past_end := (\<lambda>k. ''!'')\<rparr>)
     (world_init Map.empty) =
     (0, (world_init Map.empty)\<lparr>nalloc := 3, oob := [(24, 24)]\<rparr>)"
  by (simp add: run_defs Let_def)

text \<open>
  Claim C10, evaluated on the object with the attribute \<^verbatim>\<open>DosStream.info\<close>: the
  name has 14 bytes, its buffer is allocated with 14 bytes, and the terminator is written
  at index 14, outside the buffer.
\<close>

theorem name_terminator_outside_buffer:
  "oob (snd (get_extended_attributes host_info (world_init [''DosStream.info'' \<mapsto> ''hello'']))) =
     [(14, 14)]
   \<and> length ''DosStream.info'' = 14"
  by (simp add: run_defs Let_def)

text \<open>
  Claim C3, evaluated on the record \<^verbatim>\<open>DosStream.info\<close> = \<^verbatim>\<open>hello\<close>: the new
  buffer has 6 bytes (indices 0 to 5) and the terminator is written at index 6, outside
  the buffer.
\<close>

theorem append_terminator_outside_buffer:
  "(let w = (world_init [''DosStream.info'' \<mapsto> ''hello''])
              \<lparr>xlist := [\<lparr>x_name = ''DosStream.info'', x_value = ''hello'', x_length = 5\<rparr>],
               append_list := [0]\<rparr>;
        w' = snd (fix_append_list host_info ''/f'' F_APPEND_NULL w)
    in map (\<lambda>x. length (x_value x)) (xlist w') = [6] \<and> oob w' = [(6, 6)])"
  by (simp add: run_defs Let_def)

text \<open>
  Claim C1, evaluated on Scenario D (all-append on the object with
  \<^verbatim>\<open>DosStream.info\<close> = \<^verbatim>\<open>hello\<close>): the value written back and stored has 6 bytes,
  \<^verbatim>\<open>hello\<close> followed by the byte that fresh memory held at index 5, here \<^verbatim>\<open>a5\<close>,
  not by a NUL.
\<close>

theorem append_stores_uninitialised_byte:
  "store (snd (do_ea_stuff_single host_info ''/f'' None (F_APPEND_NULL_ALL OR F_APPEND_NULL)
            (world_init [''DosStream.info'' \<mapsto> ''hello''])))
     ''DosStream.info'' = Some (''hello'' @ [CHR 0xA5])
   \<and> set_calls (snd (do_ea_stuff_single host_info ''/f'' None (F_APPEND_NULL_ALL OR F_APPEND_NULL)
            (world_init [''DosStream.info'' \<mapsto> ''hello'']))) =
       [(''DosStream.info'', ''hello'' @ [CHR 0xA5])]
   \<and> ''hello'' @ [CHR 0xA5] \<noteq> ''hello'' @ [CHR 0x00]"
  by (simp add: run_defs Let_def)

subsection \<open>The result of a cycle\<close>

text \<open>
  Claim C2, evaluated on the object of Scenario A with check and all-append requested:
  the repair pass returns 1 (Corrupted), the append pass returns 0, their bitwise OR is
  1, and \<^verbatim>\<open>do_ea_stuff_single\<close> returns 0.
\<close>

theorem append_pass_overwrites_check_result:
  "(let flags = F_CHECK_AFP_EA OR F_APPEND_NULL_ALL OR F_APPEND_NULL;
        w0 = world_init [''DosStream.rsrc'' \<mapsto> rsrc_value];
        w1 = snd (get_extended_attributes host_rsrc w0);
        w2 = snd (get_afp_list w1);
        repaired = fix_afp_list host_rsrc ''/f'' flags w2;
        w3 = snd (get_append_list None (snd repaired));
        appended = fix_append_list host_rsrc ''/f'' flags w3
    in fst repaired = 1 \<and> fst appended = 0 \<and> fst repaired OR fst appended = 1
       \<and> fst (do_ea_stuff_single host_rsrc ''/f'' None flags w0) = 0)"
  by (simp add: run_defs Let_def)

subsection \<open>Closing the descriptor\<close>

text \<open>
  No pass closes a descriptor; the cleanup closes the one returned by \<^verbatim>\<open>open\<close> when
  it is positive. So over a whole cycle a positive descriptor is closed exactly once, on
  every path, and descriptor 0 is not closed.
\<close>

lemma fix_afp_body_closed:
  "closed (snd (snd (fix_afp_body e path flags k acc))) = closed (snd (snd acc))"
  by (cases acc)
     (simp add: fix_afp_body_def fix_afp_write_def poke_def extattr_set_fd_def Let_def
        hexdump_ea_def print_def warn_def split: prod.splits)

lemma fix_afp_loop_closed:
  "closed (snd (snd (fix_afp_loop e path flags ks acc))) = closed (snd (snd acc))"
  by (induction ks arbitrary: acc) (simp_all add: fix_afp_body_closed)

lemma fix_append_body_closed:
  "(case fix_append_body e path flags k acc of
      Inl w' \<Rightarrow> closed w' = closed (snd (snd acc))
    | Inr acc' \<Rightarrow> closed (snd (snd acc')) = closed (snd (snd acc)))"
  by (cases acc)
     (simp add: fix_append_body_def fix_append_write_def malloc_def poke_def extattr_set_fd_def
        Let_def hexdump_ea_def print_def warn_def split: prod.splits sum.splits option.splits)

lemma fix_append_loop_closed:
  "closed (snd (fix_append_loop e path flags ks acc)) = closed (snd (snd acc))"
proof (induction ks arbitrary: acc)
  case Nil
  show ?case by (cases acc) simp
next
  case (Cons k ks)
  note body = fix_append_body_closed [where e = e and path = path and flags = flags and k = k and acc = acc]
  show ?case
  proof (cases "fix_append_body e path flags k acc")
    case (Inl w')
    with body show ?thesis by simp
  next
    case (Inr acc')
    with body have "closed (snd (snd acc')) = closed (snd (snd acc))" by simp
    with Inr Cons.IH [of acc'] show ?thesis by simp
  qed
qed

lemma fix_afp_list_closed: "closed (snd (fix_afp_list e path flags w)) = closed w"
  by (simp add: fix_afp_list_def split_beta fix_afp_loop_closed)

lemma fix_append_list_closed: "closed (snd (fix_append_list e path flags w)) = closed w"
  by (simp add: fix_append_list_def fix_append_loop_closed)

lemma afp_block_closed:
  "(case afp_block e path flags ret w of
      Inl w' \<Rightarrow> closed w' = closed w
    | Inr (r, w') \<Rightarrow> closed w' = closed w)"
  by (simp add: afp_block_def split_beta fix_afp_list_closed get_afp_list_def)

lemma append_block_closed:
  "(case append_block e path attr flags ret w of
      Inl w' \<Rightarrow> closed w' = closed w
    | Inr (r, w') \<Rightarrow> closed w' = closed w)"
  by (simp add: append_block_def split_beta fix_append_list_closed get_append_list_def)

lemma do_ea_stuff_single_closed:
  "closed (snd (do_ea_stuff_single e path attr flags w)) =
     (if 0 < sys_open e path then closed w @ [sys_open e path] else closed w)"
proof -
  define w0 where "w0 = w\<lparr>xlist := [], afp_list := [], append_list := []\<rparr>"
  define fd where "fd = sys_open e path"
  obtain r1 w1 where gea: "get_extended_attributes e w0 = (r1, w1)"
    by (cases "get_extended_attributes e w0") auto
  from get_extended_attributes_frame(3) [of e w0] gea
  have w1: "closed w1 = closed w" by (simp add: w0_def)
  have unfold: "do_ea_stuff_single e path attr flags w =
     (if fd < 0 then cleanup fd EX_OSERR (warn ''open'' w0)
      else if r1 < 0 then cleanup fd EX_DATAERR w1
      else (case afp_block e path flags 0 w1 of
              Inl w2 \<Rightarrow> cleanup fd EX_DATAERR w2
            | Inr (ret, w2) \<Rightarrow>
                (case append_block e path attr flags ret w2 of
                   Inl w3 \<Rightarrow> cleanup fd EX_DATAERR w3
                 | Inr (ret', w3) \<Rightarrow> cleanup fd ret' w3)))"
    unfolding do_ea_stuff_single_def Let_def w0_def [symmetric] fd_def [symmetric]
    by (simp add: gea)
  have "closed (snd (do_ea_stuff_single e path attr flags w)) =
     (if 0 < fd then closed w @ [fd] else closed w)"
  proof (cases "fd < 0")
    case True
    then show ?thesis
      by (simp add: unfold cleanup_frame warn_def print_def w0_def)
  next
    case fd: False
    show ?thesis
    proof (cases "r1 < 0")
      case True
      with fd show ?thesis by (simp add: unfold cleanup_frame w1)
    next
      case r1: False
      show ?thesis
      proof (cases "afp_block e path flags 0 w1")
        case (Inl w2)
        with afp_block_closed [where e = e and path = path and flags = flags and ret = 0 and w = w1]
        have "closed w2 = closed w1" by simp
        with fd r1 Inl show ?thesis by (simp add: unfold cleanup_frame w1)
      next
        case (Inr p)
        obtain ret w2 where p: "p = (ret, w2)" by (cases p) auto
        with Inr afp_block_closed [where e = e and path = path and flags = flags and ret = 0 and w = w1]
        have w2: "closed w2 = closed w1" by simp
        show ?thesis
        proof (cases "append_block e path attr flags ret w2")
          case (Inl w3)
          with append_block_closed [where e = e and path = path and attr = attr and flags = flags and ret = ret and w = w2]
          have "closed w3 = closed w2" by simp
          with fd r1 Inr p Inl show ?thesis by (simp add: unfold cleanup_frame w1 w2)
        next
          case app: (Inr q)
          obtain ret' w3 where q: "q = (ret', w3)" by (cases q) auto
          with app append_block_closed [where e = e and path = path and attr = attr and flags = flags and ret = ret and w = w2]
          have "closed w3 = closed w2" by simp
          with fd r1 Inr p app q show ?thesis by (simp add: unfold cleanup_frame w1 w2)
        qed
      qed
    qed
  qed
  then show ?thesis by (simp add: fd_def)
qed

text \<open>
  Claim C9, evaluated on the object of Scenario A when \<^verbatim>\<open>open\<close> returns descriptor
  0: the open succeeds, the check runs and returns 1, and no \<^verbatim>\<open>close\<close> is issued.
\<close>

theorem descriptor_zero_left_open:
  "sys_open (host_rsrc\<lparr>sys_open := (\<lambda>p. 0)\<rparr>) ''/f'' = 0
   \<and> do_ea_stuff_single (host_rsrc\<lparr>sys_open := (\<lambda>p. 0)\<rparr>) ''/f'' None F_CHECK_AFP_EA
        (world_init [''DosStream.rsrc'' \<mapsto> rsrc_value]) =
      (1, (world_init [''DosStream.rsrc'' \<mapsto> rsrc_value])\<lparr>nalloc := 4, oob := [(14, 14)]\<rparr>)
   \<and> closed (snd (do_ea_stuff_single (host_rsrc\<lparr>sys_open := (\<lambda>p. 0)\<rparr>) ''/f'' None F_CHECK_AFP_EA
        (world_init [''DosStream.rsrc'' \<mapsto> rsrc_value]))) = []"
  by (simp add: run_defs Let_def)

end
